theory Spec2Isabelle
  imports Main "HOL-Library.Sublist"
begin

section \<open>Data model of \<open>main_app.py\<close>\<close>

text \<open>
  The script keeps the dataset in a pandas \<open>DataFrame\<close>: a list of column labels and
  a list of rows, every row holding one cell per column. The cells the script reads are
  those of the columns \<open>title\<close>, \<open>year\<close>, \<open>genres\<close> and \<open>cast\<close>.
  A cell that is missing (the JSON object had no such key, or had \<open>null\<close>) is
  pandas' NA and is modelled by \<open>None\<close> (\<open>NoGenres\<close> for the genres cell).
  A genres cell can also hold a value that is not a list (\<open>NonList\<close>), which the
  script tests for with \<open>isinstance(x, list)\<close>. A year cell holds an integer and a
  title cell holds text (the \<open>title\<close> column is a column of strings, some of them
  missing). The characters below 128 are the ASCII characters; the others stand for the
  rest of the alphabet of Python's strings. A cell of a column that the frame does not
  have is never read by the script.
\<close>

datatype genres_cell = NoGenres | GenreList "string list" | NonList string

record movie =
  title :: "string option"
  year :: "int option"
  genres :: genres_cell
  cast :: "string list option"

record dataframe =
  columns :: "string list"
  rows :: "movie list"

text \<open>
  The exceptions that the modelled part of the script can raise: \<open>int(nan)\<close> raises
  \<open>ValueError\<close>, indexing a frame or a row by a column label it does not have raises
  \<open>KeyError\<close>, a slider that refuses its bounds raises a subclass of
  \<open>StreamlitAPIException\<close>, and compiling a search term that is not a regular
  expression raises \<open>re.error\<close>.
\<close>

datatype error = ValueError | KeyError | StreamlitAPIException | ReError

subsection \<open>Dataset loader (lines 18--39)\<close>

text \<open>One row of the fallback frame: the dictionary literal has no \<open>cast\<close> key.\<close>

definition sample_movie :: "string \<Rightarrow> int \<Rightarrow> string list \<Rightarrow> movie" where
  "sample_movie t y gs = \<lparr>title = Some t, year = Some y, genres = GenreList gs, cast = None\<rparr>"

definition fallback_movies :: dataframe where
  "fallback_movies =
     \<lparr>columns = [''title'', ''year'', ''genres''],
      rows =
        [sample_movie ''The Shawshank Redemption'' 1994 [''Drama''],
         sample_movie ''The Godfather'' 1972 [''Crime'', ''Drama''],
         sample_movie ''The Dark Knight'' 2008 [''Action'', ''Drama''],
         sample_movie ''Pulp Fiction'' 1994 [''Crime'', ''Drama''],
         sample_movie ''Forrest Gump'' 1994 [''Drama'', ''Romance''],
         sample_movie ''Inception'' 2010 [''Action'', ''Sci-Fi''],
         sample_movie ''The Matrix'' 1999 [''Action'', ''Sci-Fi''],
         sample_movie ''Goodfellas'' 1990 [''Crime'', ''Drama''],
         sample_movie ''The Silence of the Lambs'' 1991 [''Crime'', ''Thriller''],
         sample_movie ''Interstellar'' 2014 [''Adventure'', ''Drama'', ''Sci-Fi'']]\<rparr>"

text \<open>
  The body of the \<open>try\<close> block (\<open>requests.get\<close>, \<open>response.json()\<close>,
  \<open>pd.DataFrame\<close>) talks to the network; its outcome is the input of the model: either
  a call raised (\<open>except Exception\<close> catches every exception alike), or the
  frame was built.
\<close>

datatype load_exception =
  ConnectionError | JSONDecodeError | ConstructorError | OtherException string

type_synonym fetch_outcome = "load_exception + dataframe"

text \<open>
  \<open>load_movie_data\<close> returns the frame and, when the \<open>except\<close> branch ran, the
  exception that \<open>st.error\<close> reports.
\<close>

definition load_movie_data :: "fetch_outcome \<Rightarrow> dataframe \<times> load_exception option" where
  "load_movie_data fetched =
     (case fetched of
        Inr movies \<Rightarrow> (movies, None)
      | Inl e \<Rightarrow> (fallback_movies, Some e))"

subsection \<open>Filter pipeline (lines 49--92)\<close>

text \<open>The values of the sidebar widgets, as the script reads them in one run.\<close>

record criteria =
  year_range :: "int \<times> int"
  selected_genres :: "string list"
  search_term :: string

text \<open>
  \<open>movies_df['year'].min()\<close> and \<open>.max()\<close> skip NA cells and give NaN when no cell
  is left; \<open>int\<close> of NaN raises \<open>ValueError\<close>.
\<close>

definition year_values :: "dataframe \<Rightarrow> int list" where
  "year_values movies_df = List.map_filter year (rows movies_df)"

definition series_min :: "int list \<Rightarrow> int option" where
  "series_min ys = (case ys of [] \<Rightarrow> None | y # ys' \<Rightarrow> Some (fold min ys' y))"

definition series_max :: "int list \<Rightarrow> int option" where
  "series_max ys = (case ys of [] \<Rightarrow> None | y # ys' \<Rightarrow> Some (fold max ys' y))"

definition py_int :: "int option \<Rightarrow> error + int" where
  "py_int v = (case v of None \<Rightarrow> Inl ValueError | Some n \<Rightarrow> Inr n)"

definition year_bounds :: "dataframe \<Rightarrow> error + (int \<times> int)" where
  "year_bounds movies_df =
     (case py_int (series_min (year_values movies_df)) of
        Inl e \<Rightarrow> Inl e
      | Inr year_min \<Rightarrow>
          (case py_int (series_max (year_values movies_df)) of
             Inl e \<Rightarrow> Inl e
           | Inr year_max \<Rightarrow> Inr (year_min, year_max)))"

text \<open>
  \<open>st.sidebar.slider(label, year_min, year_max, (year_min, year_max))\<close>, line 52.
  Streamlit refuses a slider whose \<open>min_value\<close> is not below its \<open>max_value\<close>, and
  one with an integer bound outside the range of the integers that JavaScript represents
  exactly, from \<open>-(2^53 - 1)\<close> to \<open>2^53 - 1\<close>. A slider that is created returns the
  range that the user holds it at, which is the \<open>year_range\<close> of the criteria.
\<close>

definition js_safe :: "int \<Rightarrow> bool" where
  "js_safe n = (- 9007199254740991 \<le> n \<and> n \<le> 9007199254740991)"

definition slider :: "int \<Rightarrow> int \<Rightarrow> int \<times> int \<Rightarrow> error + (int \<times> int)" where
  "slider min_value max_value held =
     (if max_value \<le> min_value then Inl StreamlitAPIException
      else if \<not> (js_safe min_value \<and> js_safe max_value) then Inl StreamlitAPIException
      else Inr held)"

text \<open>A comparison of an NA cell with a number is \<open>False\<close>.\<close>

definition year_in_range :: "int \<times> int \<Rightarrow> movie \<Rightarrow> bool" where
  "year_in_range yr m =
     (case year m of None \<Rightarrow> False | Some y \<Rightarrow> fst yr \<le> y \<and> y \<le> snd yr)"

definition year_filter :: "dataframe \<Rightarrow> int \<times> int \<Rightarrow> error + dataframe" where
  "year_filter movies_df held =
     (if ''year'' \<in> set (columns movies_df) then
        (case year_bounds movies_df of
           Inl e \<Rightarrow> Inl e
         | Inr (year_min, year_max) \<Rightarrow>
             (case slider year_min year_max held of
                Inl e \<Rightarrow> Inl e
              | Inr yr \<Rightarrow>
                  Inr (movies_df\<lparr>rows := filter (year_in_range yr) (rows movies_df)\<rparr>)))
      else Inr movies_df)"

text \<open>
  The genre stage. \<open>all_genres\<close> collects the labels of every list-typed genres cell
  of the full frame; the multiselect is only created, and \<open>selected_genres\<close> only
  read, when the frame has a \<open>genres\<close> column and \<open>all_genres\<close> is not empty.
\<close>

definition genre_labels :: "movie \<Rightarrow> string list" where
  "genre_labels m = (case genres m of GenreList gs \<Rightarrow> gs | _ \<Rightarrow> [])"

definition all_genres :: "dataframe \<Rightarrow> string set" where
  "all_genres movies_df = set (concat (map genre_labels (rows movies_df)))"

text \<open>
  The options that the multiselect offers (\<open>sorted(all_genres)\<close>, line 73): a
  selection is a list of these. Without a \<open>genres\<close> column there is no multiselect
  and nothing can be selected.
\<close>

definition genre_options :: "dataframe \<Rightarrow> string set" where
  "genre_options movies_df =
     (if ''genres'' \<in> set (columns movies_df) then all_genres movies_df else {})"

text \<open>
  The lambda of line 80:
  \<open>any(genre in x for genre in selected_genres) if isinstance(x, list) else False\<close>.
\<close>

definition has_selected_genre :: "string list \<Rightarrow> genres_cell \<Rightarrow> bool" where
  "has_selected_genre sel x =
     (case x of GenreList gs \<Rightarrow> list_ex (\<lambda>genre. genre \<in> set gs) sel | _ \<Rightarrow> False)"

text \<open>
  \<open>Series.apply\<close> on a series without rows returns an empty series of the column's
  own (object) dtype, which pandas does not take for a boolean mask: indexing the frame
  with it selects the empty list of columns. So a frame that is already empty leaves the
  stage with no rows and no columns.
\<close>

definition genre_filter :: "dataframe \<Rightarrow> string list \<Rightarrow> dataframe \<Rightarrow> dataframe" where
  "genre_filter movies_df sel filtered_movies =
     (if ''genres'' \<in> set (columns movies_df) then
        (if all_genres movies_df \<noteq> {} then
           (if sel \<noteq> [] then
              (if rows filtered_movies = [] then \<lparr>columns = [], rows = []\<rparr>
               else filtered_movies
                      \<lparr>rows := filter (\<lambda>m. has_selected_genre sel (genres m))
                                 (rows filtered_movies)\<rparr>)
            else filtered_movies)
         else filtered_movies)
      else filtered_movies)"

text \<open>
  The title stage. \<open>Series.str.contains(pat, case=False, na=False)\<close> has
  \<open>regex=True\<close> by default: the search term is compiled as a regular expression with
  \<open>re.IGNORECASE\<close>, which raises \<open>re.error\<close> for a term that is not one, and a
  title passes when \<open>search\<close> finds a match anywhere in it.

  Python's \<open>re\<close> module is a library of the script and is taken as given: for every
  term, whether compiling it raises, and for every term and text, whether the search finds
  a match.
\<close>

record regex_engine =
  compile_raises :: "string \<Rightarrow> bool"
  search_finds :: "string \<Rightarrow> string \<Rightarrow> bool"

text \<open>
  Where the term and the title are ASCII text and the term has no special character of the
  regular-expression syntax but the wildcard \<open>.\<close>, what the library does is known
  and the model computes it: such a term compiles, every character of it but the wildcard
  stands for itself, two ASCII characters match under \<open>re.IGNORECASE\<close> when they are
  equal up to the case of a letter, and the wildcard matches every character but a newline.
  Everywhere else the library is asked.
\<close>

definition regex_special :: "char list" where
  "regex_special =
     [CHR ''^'', CHR ''$'', CHR ''*'', CHR ''+'', CHR ''?'', CHR ''{'', CHR ''}'',
      CHR ''['', CHR '']'', CHR 0x5C, CHR ''|'', CHR ''('', CHR '')'']"

definition is_ascii :: "string \<Rightarrow> bool" where
  "is_ascii s = list_all (\<lambda>c. (of_char c :: nat) < 128) s"

definition computed_term :: "string \<Rightarrow> bool" where
  "computed_term term = (is_ascii term \<and> \<not> list_ex (\<lambda>c. c \<in> set regex_special) term)"

definition ascii_lower :: "char \<Rightarrow> char" where
  "ascii_lower c =
     (let n = (of_char c :: nat) in if 65 \<le> n \<and> n \<le> 90 then char_of (n + 32) else c)"

definition char_match :: "char \<Rightarrow> char \<Rightarrow> bool" where
  "char_match p c =
     (if p = CHR ''.'' then c \<noteq> CHR 0x0A else ascii_lower p = ascii_lower c)"

fun match_here :: "string \<Rightarrow> string \<Rightarrow> bool" where
  "match_here [] t = True"
| "match_here (p # ps) [] = False"
| "match_here (p # ps) (c # cs) = (char_match p c \<and> match_here ps cs)"

fun re_search :: "string \<Rightarrow> string \<Rightarrow> bool" where
  "re_search pat [] = match_here pat []"
| "re_search pat (c # cs) = (match_here pat (c # cs) \<or> re_search pat cs)"

definition str_search :: "regex_engine \<Rightarrow> string \<Rightarrow> string \<Rightarrow> bool" where
  "str_search re term t =
     (if computed_term term \<and> is_ascii t then re_search term t else search_finds re term t)"

text \<open>\<open>na=False\<close>: a missing title does not match.\<close>

definition title_matches :: "regex_engine \<Rightarrow> string \<Rightarrow> movie \<Rightarrow> bool" where
  "title_matches re term m =
     (case title m of None \<Rightarrow> False | Some t \<Rightarrow> str_search re term t)"

definition title_filter :: "regex_engine \<Rightarrow> dataframe \<Rightarrow> string \<Rightarrow> error + dataframe" where
  "title_filter re filtered_movies term =
     (if term \<noteq> [] then
        (if ''title'' \<in> set (columns filtered_movies) then
           (if \<not> computed_term term \<and> compile_raises re term then Inl ReError
            else Inr (filtered_movies
                        \<lparr>rows := filter (title_matches re term) (rows filtered_movies)\<rparr>))
         else Inl KeyError)
      else Inr filtered_movies)"

text \<open>The three stages in the order of the script: year, genre, title.\<close>

definition filter_pipeline :: "regex_engine \<Rightarrow> dataframe \<Rightarrow> criteria \<Rightarrow> error + dataframe" where
  "filter_pipeline re movies_df c =
     (case year_filter movies_df (year_range c) of
        Inl e \<Rightarrow> Inl e
      | Inr by_year \<Rightarrow>
          title_filter re (genre_filter movies_df (selected_genres c) by_year)
            (search_term c))"

subsection \<open>Selector (lines 132--146)\<close>

text \<open>
  What the Random Pick tab shows after the button was pressed: a row drawn by
  \<open>filtered_movies.sample(1).iloc[0]\<close> when the view has a row, the warning of
  \<open>st.warning\<close> otherwise. The draw is random, so the selector is a relation:
  any position of the view can be the one drawn.
\<close>

datatype pick_outcome = Recommendation movie | NoMoviesWarning

inductive random_pick :: "dataframe \<Rightarrow> pick_outcome \<Rightarrow> bool" where
  drawn: "0 < length (rows filtered_movies) \<Longrightarrow> i < length (rows filtered_movies) \<Longrightarrow>
      random_pick filtered_movies (Recommendation (rows filtered_movies ! i))"
| nothing: "\<not> 0 < length (rows filtered_movies) \<Longrightarrow>
      random_pick filtered_movies NoMoviesWarning"

subsection \<open>Aggregator (lines 164--170)\<close>

text \<open>
  \<open>genre_counts\<close> is a Python dictionary, which keeps its keys in the order of their
  first insertion: an association list. \<open>count_genre\<close> is the statement
  \<open>genre_counts[genre] = genre_counts.get(genre, 0) + 1\<close>. The dictionary is built
  only for a frame with a \<open>genres\<close> column. The chart then sorts the entries by
  count and keeps ten; that part is not modelled.
\<close>

fun count_genre :: "(string \<times> nat) list \<Rightarrow> string \<Rightarrow> (string \<times> nat) list" where
  "count_genre [] genre = [(genre, 1)]"
| "count_genre ((k, n) # kvs) genre =
     (if k = genre then (k, n + 1) # kvs else (k, n) # count_genre kvs genre)"

definition genre_counts :: "dataframe \<Rightarrow> (string \<times> nat) list option" where
  "genre_counts movies_df =
     (if ''genres'' \<in> set (columns movies_df) then
        Some (foldl (\<lambda>counts m. foldl count_genre counts (genre_labels m)) []
                (rows movies_df))
      else None)"

subsection \<open>One run of the script\<close>

text \<open>
  Streamlit runs the whole script again after every interaction. What survives from run
  to run is the cache of \<open>st.cache_data\<close>: \<open>load_movie_data\<close> takes no argument,
  so its first result is returned ever after.
\<close>

record session =
  cache :: "dataframe option"

definition cached_load :: "session \<Rightarrow> fetch_outcome \<Rightarrow> dataframe \<times> session" where
  "cached_load s fetched =
     (case cache s of
        Some movies \<Rightarrow> (movies, s)
      | None \<Rightarrow> (fst (load_movie_data fetched), s\<lparr>cache := Some (fst (load_movie_data fetched))\<rparr>))"

text \<open>
  What a run reads from the page: the sidebar widgets and the button of the Random Pick
  tab. (The slider of the Browse tab gives a number of rows between 5 and 50, so the tab
  formats the first row of every view that has one.)
\<close>

record inputs =
  widgets :: criteria
  pick_pressed :: bool

text \<open>
  A run stops without a view where the pipeline raises. With a view, the Browse tab formats
  \<open>row['title']\<close> for its rows (line 112), which raises \<open>KeyError\<close> when the view has
  a row and no \<open>title\<close> column; otherwise the tabs are rendered, the Random Pick tab
  with the outcome of the selector when its button was pressed.
\<close>

datatype run_result = NoView error | View dataframe "error + pick_outcome option"

fun view_of :: "run_result \<Rightarrow> error + dataframe" where
  "view_of (NoView e) = Inl e"
| "view_of (View filtered_movies tabs) = Inr filtered_movies"

definition browse_raises :: "dataframe \<Rightarrow> bool" where
  "browse_raises filtered_movies =
     (rows filtered_movies \<noteq> [] \<and> ''title'' \<notin> set (columns filtered_movies))"

inductive script_run ::
  "regex_engine \<Rightarrow> fetch_outcome \<Rightarrow> session \<Rightarrow> inputs \<Rightarrow> session \<times> run_result \<Rightarrow> bool" where
  stopped: "cached_load s fetched = (movies_df, s') \<Longrightarrow>
      filter_pipeline re movies_df (widgets inp) = Inl e \<Longrightarrow>
      script_run re fetched s inp (s', NoView e)"
| browse_raised: "cached_load s fetched = (movies_df, s') \<Longrightarrow>
      filter_pipeline re movies_df (widgets inp) = Inr filtered_movies \<Longrightarrow>
      browse_raises filtered_movies \<Longrightarrow>
      script_run re fetched s inp (s', View filtered_movies (Inl KeyError))"
| browsed: "cached_load s fetched = (movies_df, s') \<Longrightarrow>
      filter_pipeline re movies_df (widgets inp) = Inr filtered_movies \<Longrightarrow>
      \<not> browse_raises filtered_movies \<Longrightarrow>
      \<not> pick_pressed inp \<Longrightarrow>
      script_run re fetched s inp (s', View filtered_movies (Inr None))"
| picked: "cached_load s fetched = (movies_df, s') \<Longrightarrow>
      filter_pipeline re movies_df (widgets inp) = Inr filtered_movies \<Longrightarrow>
      \<not> browse_raises filtered_movies \<Longrightarrow>
      pick_pressed inp \<Longrightarrow>
      random_pick filtered_movies p \<Longrightarrow>
      script_run re fetched s inp (s', View filtered_movies (Inr (Some p)))"

section \<open>The properties of the specification, in its own words\<close>

text \<open>
  A genres cell that is present, list-typed and shares a label with the selected set
  (labels compared by equality).
\<close>

definition shares_genre :: "string list \<Rightarrow> movie \<Rightarrow> bool" where
  "shares_genre sel m = (\<exists>gs. genres m = GenreList gs \<and> set gs \<inter> set sel \<noteq> {})"



text \<open>The number of (record, genre) pairs of a collection.\<close>

definition genre_pairs :: "dataframe \<Rightarrow> nat" where
  "genre_pairs movies_df =
     sum_list (map (\<lambda>m. case genres m of GenreList gs \<Rightarrow> length gs | _ \<Rightarrow> 0) (rows movies_df))"



section \<open>Example collections\<close>

text \<open>The frame of the JSON array \<open>[]\<close>: no rows, and so no columns.\<close>

definition no_movies :: dataframe where
  "no_movies = \<lparr>columns = [], rows = []\<rparr>"

text \<open>The frame of \<open>[{"title": "Alpha", "year": null}]\<close>.\<close>

definition no_year_known :: dataframe where
  "no_year_known =
     \<lparr>columns = [''title'', ''year''],
      rows = [\<lparr>title = Some ''Alpha'', year = None, genres = NoGenres, cast = None\<rparr>]\<rparr>"

text \<open>
  The frame of
  \<open>[{"title": "Alpha", "year": 1994}, {"title": "Beta"}, {"title": "Gamma", "year": 2001}]\<close>.
\<close>

definition one_year_missing :: dataframe where
  "one_year_missing =
     \<lparr>columns = [''title'', ''year''],
      rows = [\<lparr>title = Some ''Alpha'', year = Some 1994, genres = NoGenres, cast = None\<rparr>,
              \<lparr>title = Some ''Beta'', year = None, genres = NoGenres, cast = None\<rparr>,
              \<lparr>title = Some ''Gamma'', year = Some 2001, genres = NoGenres, cast = None\<rparr>]\<rparr>"

definition godfather_only :: dataframe where
  "godfather_only =
     \<lparr>columns = [''title'', ''year'', ''genres''],
      rows = [sample_movie ''The Godfather'' 1972 [''Crime'', ''Drama'']]\<rparr>"

definition gump_and_lambs :: dataframe where
  "gump_and_lambs =
     \<lparr>columns = [''title'', ''year'', ''genres''],
      rows = [sample_movie ''Forrest Gump'' 1994 [''Drama'', ''Romance''],
              sample_movie ''The Silence of the Lambs'' 1991 [''Crime'', ''Thriller'']]\<rparr>"

text \<open>The same criteria, the two genres selected in one order and in the other.\<close>

definition romance_or_thriller :: criteria where
  "romance_or_thriller =
     \<lparr>year_range = (1990, 1999), selected_genres = [''Romance'', ''Thriller''],
      search_term = ''''\<rparr>"

definition thriller_or_romance :: criteria where
  "thriller_or_romance =
     \<lparr>year_range = (1990, 1999), selected_genres = [''Thriller'', ''Romance''],
      search_term = ''''\<rparr>"

section \<open>Loader and the fallback collection\<close>

text \<open>
  Claim C2. Whenever the fetch or its parsing raises, whatever the exception,
  \<open>load_movie_data\<close> returns a value (it reports the exception and does not raise):
  exactly the fallback frame. That frame has ten rows; every row has a title, a year and a
  non-empty genre list and no cast, the frame has no \<open>cast\<close> column, and one row is
  "The Godfather" of 1972.
\<close>

theorem load_failure_gives_fallback:
  "load_movie_data (Inl e) = (fallback_movies, Some e) \<and>
   length (rows fallback_movies) = 10 \<and>
   list_all (\<lambda>m. title m \<noteq> None \<and> year m \<noteq> None \<and>
                 (\<exists>gs. genres m = GenreList gs \<and> gs \<noteq> []) \<and> cast m = None)
            (rows fallback_movies) \<and>
   ''cast'' \<notin> set (columns fallback_movies) \<and>
   list_ex (\<lambda>m. title m = Some ''The Godfather'' \<and> year m = Some 1972)
           (rows fallback_movies)"
  by (simp add: load_movie_data_def fallback_movies_def sample_movie_def)

section \<open>The filtered view is a part of the collection\<close>

lemma year_filter_subseq:
  "year_filter movies_df held = Inr v \<Longrightarrow> subseq (rows v) (rows movies_df)"
  by (auto simp: year_filter_def split: if_splits sum.splits prod.splits)

lemma genre_filter_subseq:
  "subseq (rows (genre_filter movies_df sel v)) (rows v)"
  by (simp add: genre_filter_def)

lemma title_filter_subseq:
  "title_filter re v term = Inr w \<Longrightarrow> subseq (rows w) (rows v)"
  by (auto simp: title_filter_def split: if_splits)

text \<open>
  Every view that the pipeline returns keeps rows of the collection, in their order; the
  view of a collection without rows has no rows.
\<close>

lemma filter_pipeline_subseq:
  assumes "filter_pipeline re movies_df c = Inr view"
  shows "subseq (rows view) (rows movies_df)"
proof -
  from assms obtain by_year where y: "year_filter movies_df (year_range c) = Inr by_year"
    and t: "title_filter re (genre_filter movies_df (selected_genres c) by_year)
              (search_term c) = Inr view"
    by (auto simp: filter_pipeline_def split: sum.splits)
  from t have "subseq (rows view) (rows (genre_filter movies_df (selected_genres c) by_year))"
    by (rule title_filter_subseq)
  also have "subseq \<dots> (rows by_year)" by (rule genre_filter_subseq)
  also from y have "subseq \<dots> (rows movies_df)" by (rule year_filter_subseq)
  finally show ?thesis .
qed

lemma filter_pipeline_of_no_rows:
  assumes "filter_pipeline re movies_df c = Inr view" and "rows movies_df = []"
  shows "rows view = []"
  using filter_pipeline_subseq [OF assms(1)] assms(2) by simp

text \<open>
  Claim C1. The pipeline is to return an order-preserving subsequence of the collection
  for every collection and all criteria, and the empty view on an empty collection whatever
  the criteria. The views it returns are such subsequences (\<open>filter_pipeline_subseq\<close>),
  but on the collection without rows and columns a search term makes it raise: the title
  stage indexes the column \<open>title\<close> without the test for the column that the year
  and genre stages make, and \<open>KeyError\<close> leaves the script with no view at all.
\<close>

theorem empty_collection_search_raises:
  "filter_pipeline re no_movies
     \<lparr>year_range = (0, 0), selected_genres = [], search_term = ''a''\<rparr> = Inl KeyError"
  by (simp add: filter_pipeline_def year_filter_def genre_filter_def title_filter_def
      no_movies_def)

text \<open>
  Claim C9. Records with a missing year, genres or cast are never to cause an error: for
  any collection with a \<open>year\<close> column, deriving the slider bounds and running the
  pipeline is to complete. On a collection whose \<open>year\<close> column holds no year at all
  the minimum of the column is NaN and \<open>int\<close> raises \<open>ValueError\<close>, whatever the
  criteria.
\<close>

theorem all_years_missing_raises:
  "filter_pipeline re no_year_known c = Inl ValueError"
  by (simp add: filter_pipeline_def year_filter_def year_bounds_def year_values_def
      List.map_filter_def series_min_def py_int_def no_year_known_def)

section \<open>Year stage\<close>

lemma series_min_le:
  assumes "series_min ys = Some lo" and "y \<in> set ys"
  shows "lo \<le> y"
proof (cases ys)
  case Nil
  with assms(2) show ?thesis by simp
next
  case (Cons z zs)
  have "fold min zs z = Min (set (z # zs))" by (simp only: Min.set_eq_fold)
  with assms(1) Cons have "lo = Min (set ys)" by (simp add: series_min_def)
  with assms(2) show ?thesis by simp
qed

lemma series_max_ge:
  assumes "series_max ys = Some hi" and "y \<in> set ys"
  shows "y \<le> hi"
proof (cases ys)
  case Nil
  with assms(2) show ?thesis by simp
next
  case (Cons z zs)
  have "fold max zs z = Max (set (z # zs))" by (simp only: Max.set_eq_fold)
  with assms(1) Cons have "hi = Max (set ys)" by (simp add: series_max_def)
  with assms(2) show ?thesis by simp
qed

lemma year_values_member:
  "m \<in> set (rows movies_df) \<Longrightarrow> year m = Some y \<Longrightarrow> y \<in> set (year_values movies_df)"
  by (force simp: year_values_def List.map_filter_def)

lemma year_bounds_min_max:
  assumes "year_bounds movies_df = Inr (lo, hi)"
  shows "series_min (year_values movies_df) = Some lo \<and>
         series_max (year_values movies_df) = Some hi"
  using assms
  by (auto simp: year_bounds_def py_int_def split: option.splits sum.splits)

text \<open>With no genre selected and nothing searched for, the pipeline is its year stage.\<close>

lemma pipeline_of_year_range:
  "filter_pipeline re movies_df \<lparr>year_range = held, selected_genres = [], search_term = ''''\<rparr> =
     year_filter movies_df held"
  by (simp add: filter_pipeline_def genre_filter_def title_filter_def split: sum.splits)

text \<open>Between the bounds of the column lies every year of the column.\<close>

lemma year_in_full_range:
  assumes "year_bounds movies_df = Inr (lo, hi)" and "m \<in> set (rows movies_df)"
  shows "year_in_range (lo, hi) m = (year m \<noteq> None)"
proof (cases "year m")
  case None
  then show ?thesis by (simp add: year_in_range_def)
next
  case (Some y)
  with assms(2) have "y \<in> set (year_values movies_df)" by (simp add: year_values_member)
  with year_bounds_min_max [OF assms(1)] have "lo \<le> y \<and> y \<le> hi"
    using series_min_le series_max_ge by blast
  with Some show ?thesis by (simp add: year_in_range_def)
qed

lemma rows_update_same:
  "(movies_df\<lparr>rows := xs\<rparr> = movies_df) = (xs = rows movies_df)"
  by (cases movies_df) auto

text \<open>A collection whose years are all the same has no slider: the script stops there.\<close>

lemma single_year_slider_raises:
  "filter_pipeline re godfather_only c = Inl StreamlitAPIException"
  by (simp add: filter_pipeline_def year_filter_def year_bounds_def year_values_def
      List.map_filter_def series_min_def series_max_def py_int_def slider_def
      godfather_only_def sample_movie_def)

text \<open>
  Claim C5, as stated: on every collection with a \<open>year\<close> column, the year range from
  the smallest to the largest year of the dataset, with no genre and no search term,
  returns the collection unchanged. It fails where a record has no year: the comparison
  with an NA year is false and the record is dropped.
\<close>

theorem full_year_range_counterexample:
  "year_bounds one_year_missing = Inr (1994, 2001) \<and>
   (\<forall>re. filter_pipeline re one_year_missing
     \<lparr>year_range = (1994, 2001), selected_genres = [], search_term = ''''\<rparr> =
     Inr (one_year_missing
            \<lparr>rows := [\<lparr>title = Some ''Alpha'', year = Some 1994, genres = NoGenres, cast = None\<rparr>,
                      \<lparr>title = Some ''Gamma'', year = Some 2001, genres = NoGenres, cast = None\<rparr>]\<rparr>)) \<and>
   (\<forall>re. filter_pipeline re one_year_missing
     \<lparr>year_range = (1994, 2001), selected_genres = [], search_term = ''''\<rparr> \<noteq>
     Inr one_year_missing)"
  by (simp add: pipeline_of_year_range year_filter_def year_bounds_def year_values_def
      List.map_filter_def series_min_def series_max_def py_int_def year_in_range_def
      slider_def js_safe_def one_year_missing_def)

text \<open>
  Claim C5, amended: on a collection with a \<open>year\<close> column whose smallest and largest
  year differ and are integers that the slider accepts, the year range from the smallest
  to the largest year, with no genre and no search term, returns exactly the records that
  have a year, in their order; it returns the collection unchanged if and only if every
  record has a year.
\<close>

theorem full_year_range_keeps_dated:
  assumes "''year'' \<in> set (columns movies_df)"
    and "year_bounds movies_df = Inr (year_min, year_max)"
    and "year_min < year_max"
    and "js_safe year_min" and "js_safe year_max"
  shows "filter_pipeline re movies_df
           \<lparr>year_range = (year_min, year_max), selected_genres = [], search_term = ''''\<rparr> =
           Inr (movies_df\<lparr>rows := filter (\<lambda>m. year m \<noteq> None) (rows movies_df)\<rparr>) \<and>
         ((filter_pipeline re movies_df
             \<lparr>year_range = (year_min, year_max), selected_genres = [], search_term = ''''\<rparr> =
             Inr movies_df) =
          list_all (\<lambda>m. year m \<noteq> None) (rows movies_df))"
proof -
  have "filter (year_in_range (year_min, year_max)) (rows movies_df) =
      filter (\<lambda>m. year m \<noteq> None) (rows movies_df)"
    by (rule filter_cong) (simp_all add: year_in_full_range [OF assms(2)])
  with assms have run: "filter_pipeline re movies_df
      \<lparr>year_range = (year_min, year_max), selected_genres = [], search_term = ''''\<rparr> =
      Inr (movies_df\<lparr>rows := filter (\<lambda>m. year m \<noteq> None) (rows movies_df)\<rparr>)"
    by (simp add: pipeline_of_year_range year_filter_def slider_def)
  have "(movies_df\<lparr>rows := filter (\<lambda>m. year m \<noteq> None) (rows movies_df)\<rparr> = movies_df) =
      list_all (\<lambda>m. year m \<noteq> None) (rows movies_df)"
    by (simp add: rows_update_same filter_id_conv list_all_iff)
  with run show ?thesis by simp
qed

theorem full_year_range_keeps_dated_witness:
  "''year'' \<in> set (columns fallback_movies) \<and>
   year_bounds fallback_movies = Inr (1972, 2014) \<and>
   (1972 :: int) < 2014 \<and> js_safe 1972 \<and> js_safe 2014 \<and>
   list_all (\<lambda>m. year m \<noteq> None) (rows fallback_movies) \<and>
   (\<forall>re. filter_pipeline re fallback_movies
     \<lparr>year_range = (1972, 2014), selected_genres = [], search_term = ''''\<rparr> =
     Inr fallback_movies)"
proof -
  have col: "''year'' \<in> set (columns fallback_movies)"
    and all: "list_all (\<lambda>m. year m \<noteq> None) (rows fallback_movies)"
    by (simp_all add: fallback_movies_def sample_movie_def)
  have bounds: "year_bounds fallback_movies = Inr (1972, 2014)"
    by (simp add: year_bounds_def year_values_def List.map_filter_def series_min_def
        series_max_def py_int_def fallback_movies_def sample_movie_def)
  have lt: "(1972 :: int) < 2014" and lo: "js_safe 1972" and hi: "js_safe 2014"
    by (simp_all add: js_safe_def)
  have "filter_pipeline re fallback_movies
     \<lparr>year_range = (1972, 2014), selected_genres = [], search_term = ''''\<rparr> =
     Inr fallback_movies" for re
    using full_year_range_keeps_dated [OF col bounds lt lo hi, of re, THEN conjunct2] all
    by blast
  with col bounds lt lo hi all show ?thesis by simp
qed

text \<open>
  Claim C8. On the fallback frame, the year range (1990, 1999) with no genre selected and
  an empty search term leaves six rows, with the years 1994, 1994, 1994, 1999, 1990 and
  1991 in this order.
\<close>

theorem nineties_of_fallback:
  "\<exists>view. filter_pipeline re fallback_movies
            \<lparr>year_range = (1990, 1999), selected_genres = [], search_term = ''''\<rparr> = Inr view \<and>
          length (rows view) = 6 \<and>
          map year (rows view) =
            [Some 1994, Some 1994, Some 1994, Some 1999, Some 1990, Some 1991] \<and>
          map title (rows view) =
            [Some ''The Shawshank Redemption'', Some ''Pulp Fiction'', Some ''Forrest Gump'',
             Some ''The Matrix'', Some ''Goodfellas'', Some ''The Silence of the Lambs'']"
  by (simp add: pipeline_of_year_range year_filter_def year_bounds_def year_values_def
      List.map_filter_def series_min_def series_max_def py_int_def year_in_range_def
      slider_def js_safe_def fallback_movies_def sample_movie_def)

section \<open>Genre stage\<close>

lemma has_selected_genre_shares:
  "has_selected_genre sel (genres m) = shares_genre sel m"
  by (cases "genres m") (auto simp: has_selected_genre_def shares_genre_def list_ex_iff)

text \<open>
  Claim C3. For every collection, every frame entering the genre stage and every selection
  that the multiselect of the collection can return: with nothing selected the stage
  returns its input unchanged; otherwise the rows it keeps are exactly the rows whose
  genres cell is present, is a list, and shares a label (compared by equality) with the
  selection. Rows with an absent or non-list genres cell are dropped; the stage has no
  error result.
\<close>

theorem genre_filter_spec:
  assumes "set sel \<subseteq> genre_options movies_df"
  shows "(sel = [] \<longrightarrow> genre_filter movies_df sel filtered_movies = filtered_movies) \<and>
         (sel \<noteq> [] \<longrightarrow>
            rows (genre_filter movies_df sel filtered_movies) =
              filter (shares_genre sel) (rows filtered_movies))"
proof (cases "sel = []")
  case True
  then show ?thesis by (simp add: genre_filter_def)
next
  case False
  then have "set sel \<noteq> {}" by simp
  with assms have opts: "genre_options movies_df \<noteq> {}" by auto
  then have col: "''genres'' \<in> set (columns movies_df)" and lab: "all_genres movies_df \<noteq> {}"
    by (auto simp: genre_options_def split: if_splits)
  show ?thesis
  proof (cases "rows filtered_movies = []")
    case True
    with False col lab show ?thesis by (simp add: genre_filter_def)
  next
    case nonempty: False
    with False col lab show ?thesis
      by (simp add: genre_filter_def has_selected_genre_shares)
  qed
qed

theorem genre_filter_spec_witness:
  "set [''Romance''] \<subseteq> genre_options fallback_movies \<and>
   rows (genre_filter fallback_movies [''Romance''] fallback_movies) =
     filter (shares_genre [''Romance'']) (rows fallback_movies) \<and>
   rows (genre_filter fallback_movies [''Romance''] fallback_movies) =
     [sample_movie ''Forrest Gump'' 1994 [''Drama'', ''Romance'']]"
proof -
  have opt: "set [''Romance''] \<subseteq> genre_options fallback_movies"
    by (simp add: genre_options_def all_genres_def genre_labels_def fallback_movies_def
        sample_movie_def)
  have run: "rows (genre_filter fallback_movies [''Romance''] fallback_movies) =
      [sample_movie ''Forrest Gump'' 1994 [''Drama'', ''Romance'']]"
    by (simp add: genre_filter_def all_genres_def genre_labels_def has_selected_genre_def
        fallback_movies_def sample_movie_def)
  from genre_filter_spec [OF opt, of fallback_movies] opt run show ?thesis by simp
qed

text \<open>The genre stage reads the selection as a set: neither order nor repetition counts.\<close>

lemma has_selected_genre_set:
  "set sel1 = set sel2 \<Longrightarrow> has_selected_genre sel1 x = has_selected_genre sel2 x"
  by (cases x) (auto simp: has_selected_genre_def list_ex_iff)

lemma genre_filter_set:
  assumes "set sel1 = set sel2"
  shows "genre_filter movies_df sel1 filtered_movies = genre_filter movies_df sel2 filtered_movies"
proof -
  from assms have "(sel1 = []) = (sel2 = [])" by auto
  moreover have "has_selected_genre sel1 = has_selected_genre sel2"
    by (rule ext) (rule has_selected_genre_set [OF assms])
  ultimately show ?thesis by (simp add: genre_filter_def)
qed

section \<open>Title stage\<close>








section \<open>Selector\<close>

lemma random_pick_total: "\<exists>outcome. random_pick view outcome"
proof (cases "0 < length (rows view)")
  case True
  then show ?thesis by (blast intro: random_pick.drawn)
next
  case False
  then show ?thesis by (blast intro: random_pick.nothing)
qed

text \<open>
  Claim C6. The selector always has an outcome. The outcome is the warning, with no record,
  if and only if the view is empty; a recommended record is a row of the view; and on a
  view with the single row \<open>x\<close> the outcome is always the recommendation of \<open>x\<close>.
\<close>

theorem random_pick_spec:
  "(\<exists>outcome. random_pick view outcome) \<and>
   (random_pick view outcome \<longrightarrow>
      (outcome = NoMoviesWarning \<longleftrightarrow> rows view = []) \<and>
      (\<forall>m. outcome = Recommendation m \<longrightarrow> m \<in> set (rows view)) \<and>
      (\<forall>x. rows view = [x] \<longrightarrow> outcome = Recommendation x))"
proof (intro conjI impI allI)
  show "\<exists>outcome. random_pick view outcome" by (rule random_pick_total)
next
  assume "random_pick view outcome"
  then show "outcome = NoMoviesWarning \<longleftrightarrow> rows view = []"
    by (cases rule: random_pick.cases) auto
next
  fix m
  assume "random_pick view outcome" and "outcome = Recommendation m"
  then show "m \<in> set (rows view)"
    by (cases rule: random_pick.cases) auto
next
  fix x
  assume "random_pick view outcome" and one: "rows view = [x]"
  then show "outcome = Recommendation x"
    by (cases rule: random_pick.cases) auto
qed

theorem random_pick_spec_witness:
  "random_pick godfather_only
     (Recommendation (sample_movie ''The Godfather'' 1972 [''Crime'', ''Drama''])) \<and>
   rows godfather_only \<noteq> [] \<and>
   sample_movie ''The Godfather'' 1972 [''Crime'', ''Drama''] \<in> set (rows godfather_only)"
proof -
  have "random_pick godfather_only (Recommendation (rows godfather_only ! 0))"
    by (intro random_pick.drawn) (simp_all add: godfather_only_def)
  then have pick: "random_pick godfather_only
      (Recommendation (sample_movie ''The Godfather'' 1972 [''Crime'', ''Drama'']))"
    by (simp add: godfather_only_def)
  from random_pick_spec [of godfather_only
      "Recommendation (sample_movie ''The Godfather'' 1972 [''Crime'', ''Drama''])"] pick
  show ?thesis by auto
qed

section \<open>Genre histogram\<close>

lemma count_genre_sum:
  "sum_list (map snd (count_genre kvs genre)) = sum_list (map snd kvs) + 1"
  by (induction kvs genre rule: count_genre.induct) auto

lemma count_genre_keys:
  "set (map fst (count_genre kvs genre)) = insert genre (set (map fst kvs))"
  by (induction kvs genre rule: count_genre.induct) auto

lemma count_genre_distinct:
  "distinct (map fst kvs) \<Longrightarrow> distinct (map fst (count_genre kvs genre))"
proof (induction kvs genre rule: count_genre.induct)
  case (1 genre)
  then show ?case by simp
next
  case (2 k n kvs genre)
  then show ?case using count_genre_keys [of kvs genre] by auto
qed

lemma count_list_sum:
  "sum_list (map snd (foldl count_genre kvs gs)) = sum_list (map snd kvs) + length gs"
  by (induction gs arbitrary: kvs) (simp_all add: count_genre_sum)

lemma count_list_distinct:
  "distinct (map fst kvs) \<Longrightarrow> distinct (map fst (foldl count_genre kvs gs))"
  by (induction gs arbitrary: kvs) (simp_all add: count_genre_distinct)

lemma genre_labels_length:
  "length (genre_labels m) = (case genres m of GenreList gs \<Rightarrow> length gs | _ \<Rightarrow> 0)"
  by (simp add: genre_labels_def split: genres_cell.split)

lemma count_rows_sum:
  "sum_list (map snd (foldl (\<lambda>counts m. foldl count_genre counts (genre_labels m)) kvs ms)) =
     sum_list (map snd kvs) +
     sum_list (map (\<lambda>m. case genres m of GenreList gs \<Rightarrow> length gs | _ \<Rightarrow> 0) ms)"
  by (induction ms arbitrary: kvs) (simp_all add: count_list_sum genre_labels_length)

lemma count_rows_distinct:
  "distinct (map fst kvs) \<Longrightarrow>
   distinct (map fst (foldl (\<lambda>counts m. foldl count_genre counts (genre_labels m)) kvs ms))"
  by (induction ms arbitrary: kvs) (simp_all add: count_list_distinct)

text \<open>
  Claim C7. The histogram is computed for every collection with a \<open>genres\<close> column.
  Its counts, taken over the full frame and before the chart keeps its ten largest, add up
  to the number of (record, genre) pairs: the sum, over the rows whose genres cell is a
  list, of the length of that list. Every label has one entry, so the sum over the entries
  is the sum over the labels.
\<close>

theorem genre_counts_sum_to_pairs:
  "(''genres'' \<in> set (columns movies_df) \<longrightarrow>
      (\<exists>counts. genre_counts movies_df = Some counts)) \<and>
   (genre_counts movies_df = Some counts \<longrightarrow>
      sum_list (map snd counts) = genre_pairs movies_df \<and> distinct (map fst counts))"
  by (auto simp: genre_counts_def genre_pairs_def count_rows_sum count_rows_distinct
      split: if_splits)

theorem genre_counts_sum_to_pairs_witness:
  "''genres'' \<in> set (columns fallback_movies) \<and>
   genre_counts fallback_movies =
     Some [(''Drama'', 7), (''Crime'', 4), (''Action'', 3), (''Romance'', 1),
           (''Sci-Fi'', 3), (''Thriller'', 1), (''Adventure'', 1)] \<and>
   sum_list (map snd [(''Drama'', 7 :: nat), (''Crime'', 4), (''Action'', 3), (''Romance'', 1),
           (''Sci-Fi'', 3), (''Thriller'', 1), (''Adventure'', 1)]) = genre_pairs fallback_movies \<and>
   genre_pairs fallback_movies = 20"
proof -
  have col: "''genres'' \<in> set (columns fallback_movies)"
    by (simp add: fallback_movies_def)
  have run: "genre_counts fallback_movies =
     Some [(''Drama'', 7), (''Crime'', 4), (''Action'', 3), (''Romance'', 1),
           (''Sci-Fi'', 3), (''Thriller'', 1), (''Adventure'', 1)]"
    by (simp add: genre_counts_def genre_labels_def fallback_movies_def sample_movie_def)
  have pairs: "genre_pairs fallback_movies = 20"
    by (simp add: genre_pairs_def fallback_movies_def sample_movie_def)
  from genre_counts_sum_to_pairs [of fallback_movies
      "[(''Drama'', 7), (''Crime'', 4), (''Action'', 3), (''Romance'', 1),
        (''Sci-Fi'', 3), (''Thriller'', 1), (''Adventure'', 1)]"] col run pairs
  show ?thesis by simp
qed

section \<open>Runs of the script\<close>

lemma script_run_view:
  assumes "script_run re fetched s inp (s', r)"
  shows "view_of r = filter_pipeline re (fst (cached_load s fetched)) (widgets inp)"
  using assms by (cases rule: script_run.cases) simp_all

lemma script_run_session:
  assumes "script_run re fetched s inp (s', r)"
  shows "s' = snd (cached_load s fetched)"
  using assms by (cases rule: script_run.cases) simp_all

lemma cached_load_again:
  "fst (cached_load (snd (cached_load s fetched)) fetched') = fst (cached_load s fetched)"
  by (cases "cache s") (simp_all add: cached_load_def)

text \<open>Every run has a result.\<close>

lemma script_run_total: "\<exists>s' r. script_run re fetched s inp (s', r)"
proof -
  obtain movies_df s1 where load: "cached_load s fetched = (movies_df, s1)"
    by (cases "cached_load s fetched")
  show ?thesis
  proof (cases "filter_pipeline re movies_df (widgets inp)")
    case (Inl e)
    with load have "script_run re fetched s inp (s1, NoView e)" by (rule script_run.stopped)
    then show ?thesis by blast
  next
    case (Inr v)
    show ?thesis
    proof (cases "browse_raises v")
      case True
      with load Inr have "script_run re fetched s inp (s1, View v (Inl KeyError))"
        by (rule script_run.browse_raised)
      then show ?thesis by blast
    next
      case quiet: False
      show ?thesis
      proof (cases "pick_pressed inp")
        case True
        obtain p where "random_pick v p" using random_pick_total by blast
        with load Inr quiet True have "script_run re fetched s inp (s1, View v (Inr (Some p)))"
          by (rule script_run.picked)
        then show ?thesis by blast
      next
        case False
        with load Inr quiet have "script_run re fetched s inp (s1, View v (Inr None))"
          by (rule script_run.browsed)
        then show ?thesis by blast
      qed
    qed
  qed
qed

text \<open>
  The pipeline reads three things of the widgets: the year range, the set of the selected
  genres and the search term.
\<close>

lemma filter_pipeline_criteria:
  assumes "year_range c1 = year_range c2"
    and "set (selected_genres c1) = set (selected_genres c2)"
    and "search_term c1 = search_term c2"
  shows "filter_pipeline re movies_df c1 = filter_pipeline re movies_df c2"
  using assms(1,3) genre_filter_set [OF assms(2)]
  by (simp add: filter_pipeline_def split: sum.splits)

text \<open>
  Claim C10. The filtered view is determined by the collection and the criteria (the year
  range, the set of the selected genres, the search term): two runs of the script that
  load the same collection and agree on these three have the same view, or raise the same
  exception before there is one. Nothing else that a run can differ in has a part in it:
  the state of the cache before the run, the outcome of the fetch, the order in which the
  genres were selected, the press of the random-pick button, the row that the selector
  draws.
\<close>

theorem filtered_view_deterministic:
  assumes "script_run re fetched1 s1 inp1 (s1', r1)"
    and "script_run re fetched2 s2 inp2 (s2', r2)"
    and "fst (cached_load s1 fetched1) = fst (cached_load s2 fetched2)"
    and "year_range (widgets inp1) = year_range (widgets inp2)"
    and "set (selected_genres (widgets inp1)) = set (selected_genres (widgets inp2))"
    and "search_term (widgets inp1) = search_term (widgets inp2)"
  shows "view_of r1 = view_of r2"
proof -
  from assms(1) have "view_of r1 =
      filter_pipeline re (fst (cached_load s1 fetched1)) (widgets inp1)"
    by (rule script_run_view)
  also from assms(3) have "\<dots> = filter_pipeline re (fst (cached_load s2 fetched2)) (widgets inp1)"
    by simp
  also from assms(4,5,6) have "\<dots> = filter_pipeline re (fst (cached_load s2 fetched2)) (widgets inp2)"
    by (rule filter_pipeline_criteria)
  also from assms(2) have "\<dots> = view_of r2"
    by (rule script_run_view [symmetric])
  finally show ?thesis .
qed

lemma romance_or_thriller_view:
  "filter_pipeline re fallback_movies romance_or_thriller = Inr gump_and_lambs"
  by (simp add: filter_pipeline_def year_filter_def year_bounds_def year_values_def
      List.map_filter_def series_min_def series_max_def py_int_def year_in_range_def
      slider_def js_safe_def genre_filter_def all_genres_def genre_labels_def
      has_selected_genre_def title_filter_def fallback_movies_def sample_movie_def
      romance_or_thriller_def gump_and_lambs_def)

lemma thriller_or_romance_view:
  "filter_pipeline re fallback_movies thriller_or_romance = Inr gump_and_lambs"
  by (simp add: filter_pipeline_def year_filter_def year_bounds_def year_values_def
      List.map_filter_def series_min_def series_max_def py_int_def year_in_range_def
      slider_def js_safe_def genre_filter_def all_genres_def genre_labels_def
      has_selected_genre_def title_filter_def fallback_movies_def sample_movie_def
      thriller_or_romance_def gump_and_lambs_def)

theorem filtered_view_deterministic_witness:
  "\<forall>re.
     script_run re (Inl ConnectionError) \<lparr>cache = None\<rparr>
       \<lparr>widgets = romance_or_thriller, pick_pressed = True\<rparr>
       (\<lparr>cache = Some fallback_movies\<rparr>,
        View gump_and_lambs
          (Inr (Some (Recommendation
             (sample_movie ''The Silence of the Lambs'' 1991 [''Crime'', ''Thriller'']))))) \<and>
     script_run re (Inr no_movies) \<lparr>cache = Some fallback_movies\<rparr>
       \<lparr>widgets = thriller_or_romance, pick_pressed = False\<rparr>
       (\<lparr>cache = Some fallback_movies\<rparr>, View gump_and_lambs (Inr None)) \<and>
     selected_genres romance_or_thriller \<noteq> selected_genres thriller_or_romance \<and>
     view_of (View gump_and_lambs
          (Inr (Some (Recommendation
             (sample_movie ''The Silence of the Lambs'' 1991 [''Crime'', ''Thriller''])))))
       = view_of (View gump_and_lambs (Inr None))"
proof
  fix re
  have load1: "cached_load \<lparr>cache = None\<rparr> (Inl ConnectionError) =
      (fallback_movies, \<lparr>cache = Some fallback_movies\<rparr>)"
    by (simp add: cached_load_def load_movie_data_def)
  have load2: "cached_load \<lparr>cache = Some fallback_movies\<rparr> (Inr no_movies) =
      (fallback_movies, \<lparr>cache = Some fallback_movies\<rparr>)"
    by (simp add: cached_load_def)
  have quiet: "\<not> browse_raises gump_and_lambs"
    by (simp add: browse_raises_def gump_and_lambs_def)
  have "random_pick gump_and_lambs (Recommendation (rows gump_and_lambs ! 1))"
    by (intro random_pick.drawn) (simp_all add: gump_and_lambs_def)
  then have pick: "random_pick gump_and_lambs
      (Recommendation (sample_movie ''The Silence of the Lambs'' 1991 [''Crime'', ''Thriller'']))"
    by (simp add: gump_and_lambs_def)
  have run1: "script_run re (Inl ConnectionError) \<lparr>cache = None\<rparr>
       \<lparr>widgets = romance_or_thriller, pick_pressed = True\<rparr>
       (\<lparr>cache = Some fallback_movies\<rparr>,
        View gump_and_lambs
          (Inr (Some (Recommendation
             (sample_movie ''The Silence of the Lambs'' 1991 [''Crime'', ''Thriller''])))))"
    by (rule script_run.picked [OF load1 _ quiet _ pick])
       (simp_all add: romance_or_thriller_view)
  have run2: "script_run re (Inr no_movies) \<lparr>cache = Some fallback_movies\<rparr>
       \<lparr>widgets = thriller_or_romance, pick_pressed = False\<rparr>
       (\<lparr>cache = Some fallback_movies\<rparr>, View gump_and_lambs (Inr None))"
    by (rule script_run.browsed [OF load2 _ quiet])
       (simp_all add: thriller_or_romance_view)
  have same: "fst (cached_load \<lparr>cache = None\<rparr> (Inl ConnectionError)) =
      fst (cached_load \<lparr>cache = Some fallback_movies\<rparr> (Inr no_movies))"
    by (simp add: load1 load2)
  have crit: "year_range romance_or_thriller = year_range thriller_or_romance"
    "set (selected_genres romance_or_thriller) = set (selected_genres thriller_or_romance)"
    "search_term romance_or_thriller = search_term thriller_or_romance"
    "selected_genres romance_or_thriller \<noteq> selected_genres thriller_or_romance"
    by (auto simp: romance_or_thriller_def thriller_or_romance_def)
  from filtered_view_deterministic [OF run1 run2 same] crit run1 run2
  show "script_run re (Inl ConnectionError) \<lparr>cache = None\<rparr>
       \<lparr>widgets = romance_or_thriller, pick_pressed = True\<rparr>
       (\<lparr>cache = Some fallback_movies\<rparr>,
        View gump_and_lambs
          (Inr (Some (Recommendation
             (sample_movie ''The Silence of the Lambs'' 1991 [''Crime'', ''Thriller''])))))  \<and>
     script_run re (Inr no_movies) \<lparr>cache = Some fallback_movies\<rparr>
       \<lparr>widgets = thriller_or_romance, pick_pressed = False\<rparr>
       (\<lparr>cache = Some fallback_movies\<rparr>, View gump_and_lambs (Inr None)) \<and>
     selected_genres romance_or_thriller \<noteq> selected_genres thriller_or_romance \<and>
     view_of (View gump_and_lambs
          (Inr (Some (Recommendation
             (sample_movie ''The Silence of the Lambs'' 1991 [''Crime'', ''Thriller''])))))
       = view_of (View gump_and_lambs (Inr None))"
    by simp
qed

text \<open>
  A later run in the same session loads the collection of the first, whatever the network
  does then: with the same criteria it has the view of the first run.
\<close>

lemma rerun_same_view:
  assumes "script_run re fetched1 s0 inp1 (s1, r1)"
    and "script_run re fetched2 s1 inp2 (s2, r2)"
    and "year_range (widgets inp1) = year_range (widgets inp2)"
    and "set (selected_genres (widgets inp1)) = set (selected_genres (widgets inp2))"
    and "search_term (widgets inp1) = search_term (widgets inp2)"
  shows "view_of r1 = view_of r2"
proof -
  from assms(1) have "s1 = snd (cached_load s0 fetched1)" by (rule script_run_session)
  then have "fst (cached_load s0 fetched1) = fst (cached_load s1 fetched2)"
    by (simp add: cached_load_again)
  with assms show ?thesis
    using script_run_view filter_pipeline_criteria by metis
qed

end
